theory Spec2Isabelle
  imports Main
begin

section \<open>Python primitives used by the backend\<close>

text \<open>
  A Python \<open>str\<close> is a sequence of code points. It is modelled as a \<open>string\<close> whose
  characters are read as the code points 0..255 (\<open>of_char\<close>); \<open>length\<close> is \<open>len\<close>.
  Code points above 255 are outside the model.
\<close>

text \<open>
  \<open>str.isdigit()\<close>: true when the string is not empty and every character is a digit.
  Among the code points below 256 Python counts as digits \<open>0\<close>..\<open>9\<close> (48..57) and the
  superscript digits two, three and one (178, 179, 185).
\<close>

definition isdigit_char :: "char \<Rightarrow> bool" where
  "isdigit_char c =
     (let n = (of_char c :: nat)
      in (48 \<le> n \<and> n \<le> 57) \<or> n = 178 \<or> n = 179 \<or> n = 185)"

definition isdigit :: "string \<Rightarrow> bool" where
  "isdigit s = (s \<noteq> [] \<and> list_all isdigit_char s)"

text \<open>The decimal digit for a value below ten.\<close>

definition digit_char :: "nat \<Rightarrow> char" where
  "digit_char d = ''0123456789'' ! d"

text \<open>\<open>str(n)\<close> for a natural number: its decimal digits, most significant first.\<close>

function decimal :: "nat \<Rightarrow> string" where
  "decimal n = (if n < 10 then [digit_char n] else decimal (n div 10) @ [digit_char (n mod 10)])"
  by pat_completeness auto
termination
  by (relation "measure (\<lambda>n. n)") auto

declare decimal.simps [simp del]

text \<open>\<open>str(i)\<close> for an integer.\<close>

definition str_int :: "int \<Rightarrow> string" where
  "str_int i = (if i < 0 then CHR ''-'' # decimal (nat (- i)) else decimal (nat i))"

text \<open>
  The format specification \<open>05d\<close> of an f-string on a number that is not negative: the
  decimal digits, padded on the left with zeros to a width of five; a longer number is
  not cut.
\<close>

definition format_05d :: "nat \<Rightarrow> string" where
  "format_05d n = replicate (5 - length (decimal n)) (CHR ''0'') @ decimal n"

text \<open>Python's \<open><\<close> on \<open>str\<close>: lexicographic, by code point.\<close>

fun str_lt :: "string \<Rightarrow> string \<Rightarrow> bool" where
  "str_lt [] [] = False"
| "str_lt [] (y # ys) = True"
| "str_lt (x # xs) [] = False"
| "str_lt (x # xs) (y # ys) =
     ((of_char x :: nat) < of_char y \<or> (x = y \<and> str_lt xs ys))"

text \<open>
  The pattern \<open>PA-\d{5}\<close> on a whole string (with the ASCII digits for \<open>\d\<close>):
  the prefix \<open>PA-\<close> and then exactly five digits.
\<close>

definition ascii_digit :: "char \<Rightarrow> bool" where
  "ascii_digit c = (48 \<le> (of_char c :: nat) \<and> (of_char c :: nat) \<le> 57)"

definition matches_PA_5d :: "string \<Rightarrow> bool" where
  "matches_PA_5d s =
     (take 3 s = ''PA-'' \<and> length (drop 3 s) = 5 \<and> list_all ascii_digit (drop 3 s))"

section \<open>Data model (models.py)\<close>

text \<open>
  \<open>PriorAuthRequest\<close> holds the four submitted fields. \<open>PriorAuthResponse\<close> holds the
  same four fields and the four the store adds; it is written as an extension of the
  request record so that the shared field names are kept. The field \<open>id\<close> of the source
  is \<open>row_id\<close> here.
\<close>

record PriorAuthRequest =
  member_id :: string
  provider_npi :: string
  diagnosis_code :: string
  requested_service :: string

record PriorAuthResponse = PriorAuthRequest +
  row_id :: nat
  request_id :: string
  status :: string
  created_at :: nat

record ErrorInjection =
  error_type :: string

datatype HealthCheck =
  HealthCheck (hc_status: string) (hc_database: string) (hc_timestamp: nat)

text \<open>
  The length bounds of the \<open>Field\<close> declarations of \<open>PriorAuthRequest\<close>, which the schema
  layer checks before a request reaches the handler.
\<close>

definition PriorAuthRequest_schema :: "PriorAuthRequest \<Rightarrow> bool" where
  "PriorAuthRequest_schema r =
     (1 \<le> length (member_id r) \<and> length (member_id r) \<le> 50 \<and>
      10 \<le> length (provider_npi r) \<and> length (provider_npi r) \<le> 10 \<and>
      1 \<le> length (diagnosis_code r) \<and> length (diagnosis_code r) \<le> 20 \<and>
      1 \<le> length (requested_service r) \<and> length (requested_service r) \<le> 100)"

section \<open>The process and its store\<close>

text \<open>One row of the table \<open>request_logs\<close>.\<close>

record request_log =
  log_request_id :: string
  event_type :: string
  message :: string
  timestamp :: nat

datatype level = INFO | WARNING | ERROR

datatype attribute = Str string | Num int

text \<open>
  What a caller can get instead of a result: an \<open>HTTPException\<close> raised by a handler,
  with its status code and detail; an error of the store, which no handler converts; and
  the 422 answer of the schema layer to a body that breaks a \<open>Field\<close> bound.
\<close>

datatype error = HTTPException nat string | DatabaseError | RequestValidationError

text \<open>
  Modelled from the spec: the store and its two tables, which are not part of the source
  files (only the SQL statements sent to it are). The spec describes it as a transactional
  row store, one transaction per call; it assigns the surrogate id and the creation
  timestamp of a row at insert, and the timestamp of an audit event at write time.

  The state of the running process and of the store:
  \<^item> \<open>prior_auth_requests\<close>, \<open>request_logs\<close>: the two tables, in insertion order;
  \<open>id_seq\<close>: the last surrogate id the store has given out;
  \<^item> \<open>outages\<close>: for each coming attempt to reach the store, whether it fails
  (connection refused or statement failed); once the list is used up every attempt
  succeeds;
  \<^item> \<open>clock\<close>: the time in seconds; \<open>time.sleep\<close> advances it;
  \<^item> \<open>requests_total\<close>, \<open>validation_failures\<close>, \<open>database_operations\<close>: the Prometheus
  counters of observability.py, by label values; \<open>request_duration\<close>: the number of
  observations of the histogram, by endpoint (the observed durations are floating-point
  numbers and are left out);
  \<^item> \<open>spans\<close>: the names of the spans started, in order; \<open>span_attributes\<close>: the
  attributes set, as span name, key and value;
  \<^item> \<open>logger\<close>: the lines written to the Python logger (without the emoji).
\<close>

record state =
  prior_auth_requests :: "PriorAuthResponse list"
  request_logs :: "request_log list"
  id_seq :: nat
  outages :: "bool list"
  clock :: nat
  requests_total :: "string \<times> string \<Rightarrow> nat"
  request_duration :: "string \<Rightarrow> nat"
  validation_failures :: "string \<Rightarrow> nat"
  database_operations :: "string \<Rightarrow> nat"
  spans :: "string list"
  span_attributes :: "(string \<times> string \<times> attribute) list"
  logger :: "(level \<times> string) list"

text \<open>A process that has just started on an empty store that is reachable.\<close>

definition fresh :: state where
  "fresh = \<lparr>prior_auth_requests = [], request_logs = [], id_seq = 0, outages = [],
     clock = 0, requests_total = (\<lambda>_. 0), request_duration = (\<lambda>_. 0),
     validation_failures = (\<lambda>_. 0), database_operations = (\<lambda>_. 0),
     spans = [], span_attributes = [], logger = []\<rparr>"

subsection \<open>Calls that may raise\<close>

text \<open>
  A call returns a value or raises, and in both cases leaves a state behind: what was
  written before an exception stays written.
\<close>

type_synonym 'a io = "state \<Rightarrow> (error + 'a) \<times> state"

definition ret :: "'a \<Rightarrow> 'a io" where
  "ret x s = (Inr x, s)"

definition raise :: "error \<Rightarrow> 'a io" where
  "raise e s = (Inl e, s)"

definition and_then :: "'a io \<Rightarrow> ('a \<Rightarrow> 'b io) \<Rightarrow> 'b io" where
  "and_then m f s = (case m s of (Inl e, s') \<Rightarrow> (Inl e, s') | (Inr x, s') \<Rightarrow> f x s')"

text \<open>\<open>try: m except Exception as e: h e\<close>\<close>

definition try_except :: "'a io \<Rightarrow> (error \<Rightarrow> 'a io) \<Rightarrow> 'a io" where
  "try_except m h s = (case m s of (Inl e, s') \<Rightarrow> h e s' | (Inr x, s') \<Rightarrow> (Inr x, s'))"

text \<open>Statements that cannot raise, run in the order of the list.\<close>

definition effects :: "(state \<Rightarrow> state) list \<Rightarrow> unit io" where
  "effects fs s = (Inr (), fold (\<lambda>f. f) fs s)"

definition gets :: "(state \<Rightarrow> 'a) \<Rightarrow> 'a io" where
  "gets f s = (Inr (f s), s)"

subsection \<open>observability.py\<close>

definition record_request :: "string \<Rightarrow> string \<Rightarrow> state \<Rightarrow> state" where
  "record_request outcome endpoint s =
     s\<lparr>requests_total := (requests_total s)
          ((outcome, endpoint) := requests_total s (outcome, endpoint) + 1)\<rparr>"

definition record_validation_failure :: "string \<Rightarrow> state \<Rightarrow> state" where
  "record_validation_failure failure_type s =
     s\<lparr>validation_failures := (validation_failures s)
          (failure_type := validation_failures s failure_type + 1)\<rparr>"

definition record_database_operation :: "string \<Rightarrow> state \<Rightarrow> state" where
  "record_database_operation operation_type s =
     s\<lparr>database_operations := (database_operations s)
          (operation_type := database_operations s operation_type + 1)\<rparr>"

text \<open>\<open>RequestTimer.__exit__\<close>: one observation of the histogram for the endpoint.\<close>

definition observe :: "string \<Rightarrow> state \<Rightarrow> state" where
  "observe endpoint s =
     s\<lparr>request_duration := (request_duration s)(endpoint := request_duration s endpoint + 1)\<rparr>"

text \<open>
  \<open>with RequestTimer(endpoint): m\<close>: the exit of a \<open>with\<close> block runs on every way out
  of the block, and the timer does not catch the exception.
\<close>

definition RequestTimer :: "string \<Rightarrow> 'a io \<Rightarrow> 'a io" where
  "RequestTimer endpoint m s = (case m s of (r, s') \<Rightarrow> (r, observe endpoint s'))"

definition start_span :: "string \<Rightarrow> state \<Rightarrow> state" where
  "start_span name s = s\<lparr>spans := spans s @ [name]\<rparr>"

definition set_attribute :: "string \<Rightarrow> string \<Rightarrow> attribute \<Rightarrow> state \<Rightarrow> state" where
  "set_attribute name key v s = s\<lparr>span_attributes := span_attributes s @ [(name, key, v)]\<rparr>"

definition logger_log :: "level \<Rightarrow> string \<Rightarrow> state \<Rightarrow> state" where
  "logger_log lvl msg s = s\<lparr>logger := logger s @ [(lvl, msg)]\<rparr>"

definition sleep :: "nat \<Rightarrow> state \<Rightarrow> state" where
  "sleep seconds s = s\<lparr>clock := clock s + seconds\<rparr>"

subsection \<open>database.py\<close>

text \<open>One attempt to reach the store: whether it succeeds, by the next entry of \<open>outages\<close>.\<close>

definition store_attempt :: "state \<Rightarrow> bool \<times> state" where
  "store_attempt s =
     (case outages s of [] \<Rightarrow> (True, s) | down # rest \<Rightarrow> (\<not> down, s\<lparr>outages := rest\<rparr>))"

definition get_db_connection :: "unit io" where
  "get_db_connection s =
     (case store_attempt s of
        (True, s') \<Rightarrow> (Inr (), s')
      | (False, s') \<Rightarrow> (Inl DatabaseError, s'))"

text \<open>
  \<open>execute_query\<close>, with the SQL statement given as what it does to the tables. A failure
  to connect and a failure of the statement both raise and leave the tables as they were
  (rollback); one entry of \<open>outages\<close> decides the whole call.
\<close>

definition execute_query :: "(state \<Rightarrow> 'a \<times> state) \<Rightarrow> 'a io" where
  "execute_query statement s =
     (case get_db_connection s of
        (Inl e, s') \<Rightarrow> (Inl e, s')
      | (Inr _, s') \<Rightarrow> (case statement s' of (rows, s'') \<Rightarrow> (Inr rows, s'')))"

text \<open>
  The five SQL statements of main.py. The count gives the one number the handler reads as
  \<open>result[0]['count']\<close>, the insert gives the one row of its \<open>RETURNING\<close> clause, which
  the handler reads as \<open>result[0]\<close>.
\<close>

definition select_count :: "state \<Rightarrow> nat \<times> state" where
  "select_count s = (length (prior_auth_requests s), s)"

definition insert_request_log :: "string \<Rightarrow> string \<Rightarrow> string \<Rightarrow> state \<Rightarrow> unit \<times> state" where
  "insert_request_log req_id ev msg s =
     ((), s\<lparr>request_logs := request_logs s @
            [\<lparr>log_request_id = req_id, event_type = ev, message = msg, timestamp = clock s\<rparr>]\<rparr>)"

definition insert_prior_auth_request ::
  "string \<Rightarrow> PriorAuthRequest \<Rightarrow> state \<Rightarrow> PriorAuthResponse \<times> state" where
  "insert_prior_auth_request req_id request s =
     (let row = \<lparr>member_id = member_id request, provider_npi = provider_npi request,
                 diagnosis_code = diagnosis_code request,
                 requested_service = requested_service request,
                 row_id = id_seq s + 1, request_id = req_id, status = ''pending'',
                 created_at = clock s\<rparr>
      in (row, s\<lparr>prior_auth_requests := prior_auth_requests s @ [row],
                 id_seq := id_seq s + 1\<rparr>))"

text \<open>\<open>ORDER BY created_at DESC LIMIT 100\<close>; rows of equal time come newest insert first.\<close>

definition select_requests :: "state \<Rightarrow> PriorAuthResponse list \<times> state" where
  "select_requests s = (take 100 (rev (sort_key created_at (prior_auth_requests s))), s)"

definition select_logs :: "string \<Rightarrow> state \<Rightarrow> request_log list \<times> state" where
  "select_logs req_id s =
     (sort_key timestamp (filter (\<lambda>l. log_request_id l = req_id) (request_logs s)), s)"

text \<open>
  Vocabulary for the statements below: \<open>up\<close>, the next attempt succeeds, as a property
  of the list of outages; \<open>store_up\<close>, the next attempt to reach the store succeeds;
  \<open>available\<close>, every coming attempt succeeds; \<open>used\<close>, the state after one attempt.
\<close>

definition up :: "bool list \<Rightarrow> bool" where
  "up xs = (case xs of [] \<Rightarrow> True | down # rest \<Rightarrow> \<not> down)"

abbreviation store_up :: "state \<Rightarrow> bool" where
  "store_up s \<equiv> up (outages s)"

abbreviation available :: "state \<Rightarrow> bool" where
  "available s \<equiv> list_all (\<lambda>down. \<not> down) (outages s)"

definition used :: "state \<Rightarrow> state" where
  "used s = s\<lparr>outages := tl (outages s)\<rparr>"

section \<open>main.py\<close>

definition get_next_request_id :: "string io" where
  "get_next_request_id =
     and_then (execute_query select_count) (\<lambda>count.
     ret (''PA-'' @ format_05d (count + 1)))"

text \<open>
  \<open>log_event\<close>: the insert, the log line and the metric are inside the \<open>try\<close>; the handler
  writes one error line (the text of the exception is left out).
\<close>

definition log_event :: "string \<Rightarrow> string \<Rightarrow> string \<Rightarrow> unit io" where
  "log_event req_id ev msg =
     try_except
       (and_then (execute_query (insert_request_log req_id ev msg)) (\<lambda>_.
        effects [logger_log INFO (''Logged: '' @ req_id @ '' - '' @ ev),
                 record_database_operation ''insert_log'']))
       (\<lambda>e. effects [logger_log ERROR ''Failed to log event''])"

definition root :: "(string \<times> string) io" where
  "root =
     and_then (effects [record_request ''success'' ''/'']) (\<lambda>_.
     ret (''Prior Authorization API'', ''running''))"

definition health_check :: "HealthCheck io" where
  "health_check =
     RequestTimer ''/health''
       (try_except
          (and_then get_db_connection (\<lambda>_.
           and_then (effects [record_request ''success'' ''/health'']) (\<lambda>_.
           and_then (gets clock) (\<lambda>now.
           ret (HealthCheck ''healthy'' ''connected'' now)))))
          (\<lambda>e.
           and_then (effects [record_request ''error'' ''/health'']) (\<lambda>_.
           and_then (gets clock) (\<lambda>now.
           ret (HealthCheck ''unhealthy'' ''disconnected'' now)))))"

text \<open>
  \<open>metrics\<close>: the exposition of the registry, given here as the values of the three
  counters and the observation counts of the histogram.
\<close>

definition metrics ::
  "((string \<times> string \<Rightarrow> nat) \<times> (string \<Rightarrow> nat) \<times> (string \<Rightarrow> nat) \<times> (string \<Rightarrow> nat)) io" where
  "metrics =
     gets (\<lambda>s. (requests_total s, request_duration s, validation_failures s,
                database_operations s))"

text \<open>
  \<open>submit_prior_auth\<close>, in the order of its body. The four blocks that run under a span of
  their own come under the name of that span (\<open>vip_member_slow_query\<close> with the test on the
  member identifier that guards it); \<open>log_receipt\<close> is the part of the body before the
  validation block (lines 140 to 164), \<open>log_success\<close> the part after the insert block
  (lines 213 to 224).
\<close>

definition vip_member_slow_query :: "PriorAuthRequest \<Rightarrow> string \<Rightarrow> unit io" where
  "vip_member_slow_query request req_id =
     effects
       (if member_id request = ''M99999''
        then [start_span ''vip_member_slow_query'',
              set_attribute ''vip_member_slow_query'' ''delay_ms'' (Num 2000),
              set_attribute ''vip_member_slow_query'' ''reason''
                (Str ''Simulating database contention''),
              logger_log WARNING
                (''VIP member '' @ member_id request @ '' - simulating 2s delay''),
              sleep 2,
              logger_log INFO (''Delay complete for '' @ req_id)]
        else [])"

definition log_receipt :: "PriorAuthRequest \<Rightarrow> string io" where
  "log_receipt request =
     and_then (effects [start_span ''submit_prior_auth'']) (\<lambda>_.
     and_then get_next_request_id (\<lambda>req_id.
     and_then (vip_member_slow_query request req_id) (\<lambda>_.
     and_then (effects
       [set_attribute ''submit_prior_auth'' ''request.id'' (Str req_id),
        set_attribute ''submit_prior_auth'' ''request.member_id'' (Str (member_id request)),
        set_attribute ''submit_prior_auth'' ''request.provider_npi''
          (Str (provider_npi request)),
        logger_log INFO
          (''Received request '' @ req_id @ '' from provider '' @ provider_npi request)]) (\<lambda>_.
     and_then (log_event req_id ''REQUEST_RECEIVED''
       (''Submitted by provider NPI '' @ provider_npi request)) (\<lambda>_.
     ret req_id)))))"

definition validate_npi :: "PriorAuthRequest \<Rightarrow> string \<Rightarrow> unit io" where
  "validate_npi request req_id =
     and_then (effects [start_span ''validate_npi'']) (\<lambda>_.
     if \<not> isdigit (provider_npi request) \<or> length (provider_npi request) \<noteq> 10
     then
       and_then (effects
         [logger_log WARNING (''Invalid NPI format: '' @ provider_npi request)]) (\<lambda>_.
       and_then (log_event req_id ''VALIDATION_FAILED''
         (''Invalid NPI format: '' @ provider_npi request)) (\<lambda>_.
       and_then (effects
         [record_validation_failure ''invalid_npi_format'',
          record_request ''validation_error'' ''/prior-auth/submit'']) (\<lambda>_.
       raise (HTTPException 400 ''Provider NPI must be exactly 10 digits''))))
     else ret ())"

definition generate_request_id :: "string io" where
  "generate_request_id =
     and_then (effects [start_span ''generate_request_id'']) (\<lambda>_.
     get_next_request_id)"

definition database_insert :: "PriorAuthRequest \<Rightarrow> string \<Rightarrow> PriorAuthResponse io" where
  "database_insert request req_id =
     and_then (effects [start_span ''database_insert'']) (\<lambda>_.
     and_then (execute_query (insert_prior_auth_request req_id request)) (\<lambda>result.
     and_then (effects [record_database_operation ''insert_request'']) (\<lambda>_.
     ret result)))"

definition log_success ::
  "PriorAuthRequest \<Rightarrow> string \<Rightarrow> PriorAuthResponse \<Rightarrow> PriorAuthResponse io" where
  "log_success request req_id result =
     and_then (log_event req_id ''SAVED_TO_DATABASE''
       (''Request saved for member '' @ member_id request)) (\<lambda>_.
     and_then (log_event req_id ''STATUS_PENDING'' ''Awaiting review'') (\<lambda>_.
     and_then (effects
       [logger_log INFO (''Created '' @ req_id),
        record_request ''success'' ''/prior-auth/submit'']) (\<lambda>_.
     ret result)))"

definition submit_prior_auth :: "PriorAuthRequest \<Rightarrow> PriorAuthResponse io" where
  "submit_prior_auth request =
     and_then (log_receipt request) (\<lambda>req_id.
     and_then (validate_npi request req_id) (\<lambda>_.
     and_then generate_request_id (\<lambda>req_id.
     and_then (log_event req_id ''VALIDATION_PASSED'' ''All required fields validated'') (\<lambda>_.
     and_then (database_insert request req_id) (\<lambda>result.
     log_success request req_id result)))))"

definition list_requests :: "PriorAuthResponse list io" where
  "list_requests =
     RequestTimer ''/prior-auth/requests''
       (and_then (execute_query select_requests) (\<lambda>results.
        and_then (effects
          [record_database_operation ''select_requests'',
           record_request ''success'' ''/prior-auth/requests'']) (\<lambda>_.
        ret results)))"

definition get_request_logs :: "string \<Rightarrow> (string \<times> request_log list) io" where
  "get_request_logs req_id =
     and_then (execute_query (select_logs req_id)) (\<lambda>logs.
     and_then (effects [record_database_operation ''select_logs'']) (\<lambda>_.
     ret (req_id, logs)))"

definition trigger_error :: "ErrorInjection \<Rightarrow> string io" where
  "trigger_error err =
     and_then (gets clock) (\<lambda>now.
     and_then (ret (''ERROR-'' @ str_int (int now))) (\<lambda>error_id.
     and_then (effects [logger_log WARNING (''Triggering '' @ error_type err)]) (\<lambda>_.
     and_then (log_event error_id ''ERROR_TEST_STARTED''
       (''Testing '' @ error_type err)) (\<lambda>_.
     if error_type err = ''database_timeout'' then
       and_then (log_event error_id ''DATABASE_SLOW'' ''Simulating 5 second timeout'') (\<lambda>_.
       and_then (effects [sleep 5]) (\<lambda>_.
       and_then (log_event error_id ''DATABASE_TIMEOUT''
         ''Query exceeded timeout threshold'') (\<lambda>_.
       and_then (effects [record_request ''timeout_error'' ''/prior-auth/test/errors'']) (\<lambda>_.
       raise (HTTPException 503 ''Database timeout'')))))
     else if error_type err = ''validation_error'' then
       and_then (log_event error_id ''VALIDATION_ERROR'' ''Missing required field'') (\<lambda>_.
       and_then (effects
         [record_request ''validation_error'' ''/prior-auth/test/errors'']) (\<lambda>_.
       raise (HTTPException 400 ''Validation failed'')))
     else ret (error_type err)))))"

subsection \<open>The operations of the service\<close>

datatype operation =
    GetRoot
  | GetHealth
  | GetMetrics
  | PostSubmit PriorAuthRequest
  | GetRequests
  | GetRequestLogs string
  | PostTestErrors ErrorInjection

datatype response =
    RootResponse string string
  | HealthResponse HealthCheck
  | MetricsResponse
  | Created PriorAuthResponse
  | RequestList "PriorAuthResponse list"
  | AuditTrail string "request_log list"
  | ErrorTriggered string

text \<open>
  One operation of the service. A submission reaches \<open>submit_prior_auth\<close> only when its
  body satisfies the bounds of \<open>PriorAuthRequest\<close>; otherwise the schema layer answers
  before the handler runs and nothing is recorded. The bodies of the other operations have
  no bounds.
\<close>

fun handle :: "operation \<Rightarrow> response io" where
  "handle GetRoot = and_then root (\<lambda>(m, st). ret (RootResponse m st))"
| "handle GetHealth = and_then health_check (\<lambda>h. ret (HealthResponse h))"
| "handle GetMetrics = and_then metrics (\<lambda>_. ret MetricsResponse)"
| "handle (PostSubmit request) =
     (if PriorAuthRequest_schema request
      then and_then (submit_prior_auth request) (\<lambda>r. ret (Created r))
      else raise RequestValidationError)"
| "handle GetRequests = and_then list_requests (\<lambda>rs. ret (RequestList rs))"
| "handle (GetRequestLogs req_id) =
     and_then (get_request_logs req_id) (\<lambda>(i, logs). ret (AuditTrail i logs))"
| "handle (PostTestErrors err) = and_then (trigger_error err) (\<lambda>e. ret (ErrorTriggered e))"

text \<open>
  A serialized run: the operations one after the other, each on the state the one before
  left, whether it returned or raised. The result is the list of outcomes and the last
  state.
\<close>

fun run :: "operation list \<Rightarrow> state \<Rightarrow> (error + response) list \<times> state" where
  "run [] s = ([], s)"
| "run (op # ops) s =
     (case handle op s of (r, s') \<Rightarrow> (case run ops s' of (rs, s'') \<Rightarrow> (r # rs, s'')))"

subsection \<open>Vocabulary for runs and identifiers\<close>

text \<open>
  The record a successful submission returned, if the outcome is one; the identifiers
  returned in a run, in order; whether an outcome is a created record; whether it is the
  error of the provider identifier check.
\<close>

fun created :: "error + response \<Rightarrow> PriorAuthResponse list" where
  "created (Inr (Created row)) = [row]"
| "created r = []"

definition created_ids :: "(error + response) list \<Rightarrow> string list" where
  "created_ids rs = map request_id (concat (map created rs))"

definition is_created :: "error + response \<Rightarrow> bool" where
  "is_created r = (created r \<noteq> [])"

definition is_invalid_npi :: "error + response \<Rightarrow> bool" where
  "is_invalid_npi r = (r = Inl (HTTPException 400 ''Provider NPI must be exactly 10 digits''))"

text \<open>
  Two requests of demo_multiple_requests.py: the first of its valid requests and the
  second of its invalid ones (the one whose provider identifier has ten characters).
\<close>

definition valid_request :: PriorAuthRequest where
  "valid_request = \<lparr>member_id = ''M10001'', provider_npi = ''1234567890'',
     diagnosis_code = ''E11.9'', requested_service = ''MRI_BRAIN''\<rparr>"

definition invalid_request :: PriorAuthRequest where
  "invalid_request = \<lparr>member_id = ''M20002'', provider_npi = ''ABCDEFGHIJ'',
     diagnosis_code = ''E11'', requested_service = ''TEST''\<rparr>"


text \<open>
  The first valid request of the demonstration with the last character of its provider
  identifier replaced by the superscript two (code point 178).
\<close>

definition superscript_request :: PriorAuthRequest where
  "superscript_request = \<lparr>member_id = ''M10001'', provider_npi = ''123456789'' @ [CHR 0xB2],
     diagnosis_code = ''E11.9'', requested_service = ''MRI_BRAIN''\<rparr>"

text \<open>The audit events written between two states, as identifier and event type.\<close>

definition new_events :: "state \<Rightarrow> state \<Rightarrow> (string \<times> string) list" where
  "new_events s s' =
     map (\<lambda>l. (log_request_id l, event_type l))
       (drop (length (request_logs s)) (request_logs s'))"

text \<open>The last \<open>w\<close> decimal digits of a number, most significant first.\<close>

fun padded :: "nat \<Rightarrow> nat \<Rightarrow> string" where
  "padded 0 n = []"
| "padded (Suc w) n = padded w (n div 10) @ [digit_char (n mod 10)]"


section \<open>Decimal formatting and the order of identifiers\<close>

lemma digit_codes: "list_all (\<lambda>d. (of_char (digit_char d) :: nat) = 48 + d) [0..<10]"
  by code_simp

lemma digit_code: "d < 10 \<Longrightarrow> (of_char (digit_char d) :: nat) = 48 + d"
  using digit_codes by (simp add: list_all_iff)

lemma length_padded [simp]: "length (padded w n) = w"
  by (induction w arbitrary: n) simp_all

lemma padded_zero: "padded w 0 = replicate w (CHR ''0'')"
  by (induction w) (simp_all add: digit_char_def replicate_append_same)

lemma decimal_padded:
  "0 < w \<Longrightarrow> n < 10 ^ w \<Longrightarrow>
   length (decimal n) \<le> w \<and>
   replicate (w - length (decimal n)) (CHR ''0'') @ decimal n = padded w n"
proof (induction n arbitrary: w rule: decimal.induct)
  case (1 n)
  from \<open>0 < w\<close> obtain v where w: "w = Suc v" by (cases w) auto
  show ?case
  proof (cases "n < 10")
    case True
    then show ?thesis
      by (simp add: w decimal.simps [of n] padded_zero)
  next
    case False
    with "1.prems" w have v: "0 < v" "n div 10 < 10 ^ v"
      by (cases v; auto)+
    from "1.IH" [OF False v] False show ?thesis
      by (simp add: w decimal.simps [of n] Suc_diff_le)
  qed
qed

lemma format_05d_padded: "n < 100000 \<Longrightarrow> format_05d n = padded 5 n"
  using decimal_padded [of 5 n] by (simp add: format_05d_def)

lemma str_lt_snoc:
  "length xs = length ys \<Longrightarrow>
   str_lt (xs @ [a]) (ys @ [b]) =
     (str_lt xs ys \<or> (xs = ys \<and> (of_char a :: nat) < of_char b))"
  by (induction xs ys rule: list_induct2) auto

lemma padded_less: "m < n \<Longrightarrow> n < 10 ^ w \<Longrightarrow> str_lt (padded w m) (padded w n)"
proof (induction w arbitrary: m n)
  case 0
  then show ?case by simp
next
  case (Suc w)
  have n: "n div 10 < 10 ^ w"
    using Suc.prems(2) by (simp add: less_mult_imp_div_less mult.commute)
  show ?case
  proof (cases "m div 10 < n div 10")
    case True
    then show ?thesis using Suc.IH [OF True n] by (simp add: str_lt_snoc)
  next
    case False
    have eq: "m div 10 = n div 10"
      using div_le_mono [of m n 10] Suc.prems(1) False by simp
    have "10 * (n div 10) + m mod 10 < 10 * (n div 10) + n mod 10"
      using Suc.prems(1) mult_div_mod_eq [of 10 m] mult_div_mod_eq [of 10 n] eq
      by (simp only:)
    then have lt: "m mod 10 < n mod 10"
      by (simp only: add_less_cancel_left)
    from eq lt show ?thesis by (simp add: str_lt_snoc digit_code)
  qed
qed

lemma str_lt_prefix [simp]: "str_lt (p @ xs) (p @ ys) = str_lt xs ys"
  by (induction p) auto

lemma padded_digits: "list_all ascii_digit (padded w n)"
  by (induction w arbitrary: n) (simp_all add: ascii_digit_def digit_code)

section \<open>Basic facts about the calls\<close>

lemma store_attempt_eq: "store_attempt s = (store_up s, used s)"
  by (simp add: store_attempt_def up_def used_def split: list.splits)

lemma get_db_connection_eq:
  "get_db_connection s = (if store_up s then Inr () else Inl DatabaseError, used s)"
  by (simp add: get_db_connection_def store_attempt_eq)

lemma execute_query_eq:
  "execute_query st s =
     (if store_up s then (Inr (fst (st (used s))), snd (st (used s)))
      else (Inl DatabaseError, used s))"
  by (simp add: execute_query_def get_db_connection_eq split: prod.splits)

lemma and_then_ret [simp]: "and_then (ret x) f s = f x s"
  by (simp add: and_then_def ret_def)

lemma and_then_raise [simp]: "and_then (raise e) f s = (Inl e, s)"
  by (simp add: and_then_def raise_def)

lemma and_then_gets [simp]: "and_then (gets g) f s = f (g s) s"
  by (simp add: and_then_def gets_def)

lemma and_then_effects [simp]: "and_then (effects fs) f s = f () (fold (\<lambda>f. f) fs s)"
  by (simp add: and_then_def effects_def)

lemma and_then_assoc [simp]:
  "and_then (and_then m g) f = and_then m (\<lambda>x. and_then (g x) f)"
  by (rule ext) (simp add: and_then_def split: prod.splits sum.splits)

lemma and_then_if [simp]:
  "and_then (if c then a else b) f s = (if c then and_then a f s else and_then b f s)"
  by simp

lemma and_then_execute_query [simp]:
  "and_then (execute_query st) f s =
     (if store_up s then f (fst (st (used s))) (snd (st (used s)))
      else (Inl DatabaseError, used s))"
  by (simp add: and_then_def execute_query_eq)

lemma get_next_request_id_eq:
  "get_next_request_id s =
     (if store_up s then Inr (''PA-'' @ format_05d (length (prior_auth_requests s) + 1))
      else Inl DatabaseError, used s)"
  by (simp add: get_next_request_id_def ret_def select_count_def used_def)

lemma and_then_get_next_request_id [simp]:
  "and_then get_next_request_id f s =
     (if store_up s then f (''PA-'' @ format_05d (length (prior_auth_requests s) + 1)) (used s)
      else (Inl DatabaseError, used s))"
  by (simp add: and_then_def get_next_request_id_eq)

lemma log_event_eq:
  "log_event r e m s =
     (Inr (),
      if store_up s
      then record_database_operation ''insert_log''
             (logger_log INFO (''Logged: '' @ r @ '' - '' @ e)
               (snd (insert_request_log r e m (used s))))
      else logger_log ERROR ''Failed to log event'' (used s))"
  by (simp add: log_event_def try_except_def effects_def)

lemma ret_apply [simp]: "ret x s = (Inr x, s)"
  by (simp add: ret_def)

lemma raise_apply [simp]: "raise e s = (Inl e, s)"
  by (simp add: raise_def)

text \<open>What each statement that cannot raise does to each part of the state.\<close>

lemma start_span_fields [simp]:
  "prior_auth_requests (start_span name s) = prior_auth_requests s"
  "request_logs (start_span name s) = request_logs s"
  "id_seq (start_span name s) = id_seq s"
  "outages (start_span name s) = outages s"
  "clock (start_span name s) = clock s"
  "requests_total (start_span name s) = requests_total s"
  "request_duration (start_span name s) = request_duration s"
  "validation_failures (start_span name s) = validation_failures s"
  "database_operations (start_span name s) = database_operations s"
  "spans (start_span name s) = spans s @ [name]"
  "span_attributes (start_span name s) = span_attributes s"
  "logger (start_span name s) = logger s"
  by (simp_all add: start_span_def)

lemma set_attribute_fields [simp]:
  "prior_auth_requests (set_attribute name key v s) = prior_auth_requests s"
  "request_logs (set_attribute name key v s) = request_logs s"
  "id_seq (set_attribute name key v s) = id_seq s"
  "outages (set_attribute name key v s) = outages s"
  "clock (set_attribute name key v s) = clock s"
  "requests_total (set_attribute name key v s) = requests_total s"
  "request_duration (set_attribute name key v s) = request_duration s"
  "validation_failures (set_attribute name key v s) = validation_failures s"
  "database_operations (set_attribute name key v s) = database_operations s"
  "spans (set_attribute name key v s) = spans s"
  "span_attributes (set_attribute name key v s) = span_attributes s @ [(name, key, v)]"
  "logger (set_attribute name key v s) = logger s"
  by (simp_all add: set_attribute_def)

lemma logger_log_fields [simp]:
  "prior_auth_requests (logger_log lvl msg s) = prior_auth_requests s"
  "request_logs (logger_log lvl msg s) = request_logs s"
  "id_seq (logger_log lvl msg s) = id_seq s"
  "outages (logger_log lvl msg s) = outages s"
  "clock (logger_log lvl msg s) = clock s"
  "requests_total (logger_log lvl msg s) = requests_total s"
  "request_duration (logger_log lvl msg s) = request_duration s"
  "validation_failures (logger_log lvl msg s) = validation_failures s"
  "database_operations (logger_log lvl msg s) = database_operations s"
  "spans (logger_log lvl msg s) = spans s"
  "span_attributes (logger_log lvl msg s) = span_attributes s"
  "logger (logger_log lvl msg s) = logger s @ [(lvl, msg)]"
  by (simp_all add: logger_log_def)

lemma sleep_fields [simp]:
  "prior_auth_requests (sleep seconds s) = prior_auth_requests s"
  "request_logs (sleep seconds s) = request_logs s"
  "id_seq (sleep seconds s) = id_seq s"
  "outages (sleep seconds s) = outages s"
  "clock (sleep seconds s) = clock s + seconds"
  "requests_total (sleep seconds s) = requests_total s"
  "request_duration (sleep seconds s) = request_duration s"
  "validation_failures (sleep seconds s) = validation_failures s"
  "database_operations (sleep seconds s) = database_operations s"
  "spans (sleep seconds s) = spans s"
  "span_attributes (sleep seconds s) = span_attributes s"
  "logger (sleep seconds s) = logger s"
  by (simp_all add: sleep_def)

lemma record_request_fields [simp]:
  "prior_auth_requests (record_request outcome endpoint s) = prior_auth_requests s"
  "request_logs (record_request outcome endpoint s) = request_logs s"
  "id_seq (record_request outcome endpoint s) = id_seq s"
  "outages (record_request outcome endpoint s) = outages s"
  "clock (record_request outcome endpoint s) = clock s"
  "requests_total (record_request outcome endpoint s) = (requests_total s)((outcome, endpoint) := requests_total s (outcome, endpoint) + 1)"
  "request_duration (record_request outcome endpoint s) = request_duration s"
  "validation_failures (record_request outcome endpoint s) = validation_failures s"
  "database_operations (record_request outcome endpoint s) = database_operations s"
  "spans (record_request outcome endpoint s) = spans s"
  "span_attributes (record_request outcome endpoint s) = span_attributes s"
  "logger (record_request outcome endpoint s) = logger s"
  by (simp_all add: record_request_def)

lemma record_validation_failure_fields [simp]:
  "prior_auth_requests (record_validation_failure failure_type s) = prior_auth_requests s"
  "request_logs (record_validation_failure failure_type s) = request_logs s"
  "id_seq (record_validation_failure failure_type s) = id_seq s"
  "outages (record_validation_failure failure_type s) = outages s"
  "clock (record_validation_failure failure_type s) = clock s"
  "requests_total (record_validation_failure failure_type s) = requests_total s"
  "request_duration (record_validation_failure failure_type s) = request_duration s"
  "validation_failures (record_validation_failure failure_type s) = (validation_failures s)(failure_type := validation_failures s failure_type + 1)"
  "database_operations (record_validation_failure failure_type s) = database_operations s"
  "spans (record_validation_failure failure_type s) = spans s"
  "span_attributes (record_validation_failure failure_type s) = span_attributes s"
  "logger (record_validation_failure failure_type s) = logger s"
  by (simp_all add: record_validation_failure_def)

lemma record_database_operation_fields [simp]:
  "prior_auth_requests (record_database_operation operation_type s) = prior_auth_requests s"
  "request_logs (record_database_operation operation_type s) = request_logs s"
  "id_seq (record_database_operation operation_type s) = id_seq s"
  "outages (record_database_operation operation_type s) = outages s"
  "clock (record_database_operation operation_type s) = clock s"
  "requests_total (record_database_operation operation_type s) = requests_total s"
  "request_duration (record_database_operation operation_type s) = request_duration s"
  "validation_failures (record_database_operation operation_type s) = validation_failures s"
  "database_operations (record_database_operation operation_type s) = (database_operations s)(operation_type := database_operations s operation_type + 1)"
  "spans (record_database_operation operation_type s) = spans s"
  "span_attributes (record_database_operation operation_type s) = span_attributes s"
  "logger (record_database_operation operation_type s) = logger s"
  by (simp_all add: record_database_operation_def)

lemma observe_fields [simp]:
  "prior_auth_requests (observe endpoint s) = prior_auth_requests s"
  "request_logs (observe endpoint s) = request_logs s"
  "id_seq (observe endpoint s) = id_seq s"
  "outages (observe endpoint s) = outages s"
  "clock (observe endpoint s) = clock s"
  "requests_total (observe endpoint s) = requests_total s"
  "request_duration (observe endpoint s) = (request_duration s)(endpoint := request_duration s endpoint + 1)"
  "validation_failures (observe endpoint s) = validation_failures s"
  "database_operations (observe endpoint s) = database_operations s"
  "spans (observe endpoint s) = spans s"
  "span_attributes (observe endpoint s) = span_attributes s"
  "logger (observe endpoint s) = logger s"
  by (simp_all add: observe_def)

lemma used_fields [simp]:
  "prior_auth_requests (used s) = prior_auth_requests s"
  "request_logs (used s) = request_logs s"
  "id_seq (used s) = id_seq s"
  "outages (used s) = tl (outages s)"
  "clock (used s) = clock s"
  "requests_total (used s) = requests_total s"
  "request_duration (used s) = request_duration s"
  "validation_failures (used s) = validation_failures s"
  "database_operations (used s) = database_operations s"
  "spans (used s) = spans s"
  "span_attributes (used s) = span_attributes s"
  "logger (used s) = logger s"
  by (simp_all add: used_def)

lemma insert_prior_auth_request_row [simp]:
  "fst (insert_prior_auth_request req_id request s) =
     \<lparr>member_id = member_id request, provider_npi = provider_npi request,
       diagnosis_code = diagnosis_code request,
       requested_service = requested_service request,
       row_id = id_seq s + 1, request_id = req_id, status = ''pending'',
       created_at = clock s\<rparr>"
  by (simp add: insert_prior_auth_request_def Let_def)

lemma insert_prior_auth_request_fields [simp]:
  "prior_auth_requests (snd (insert_prior_auth_request req_id request s)) = prior_auth_requests s @ [fst (insert_prior_auth_request req_id request s)]"
  "request_logs (snd (insert_prior_auth_request req_id request s)) = request_logs s"
  "id_seq (snd (insert_prior_auth_request req_id request s)) = id_seq s + 1"
  "outages (snd (insert_prior_auth_request req_id request s)) = outages s"
  "clock (snd (insert_prior_auth_request req_id request s)) = clock s"
  "requests_total (snd (insert_prior_auth_request req_id request s)) = requests_total s"
  "request_duration (snd (insert_prior_auth_request req_id request s)) = request_duration s"
  "validation_failures (snd (insert_prior_auth_request req_id request s)) = validation_failures s"
  "database_operations (snd (insert_prior_auth_request req_id request s)) = database_operations s"
  "spans (snd (insert_prior_auth_request req_id request s)) = spans s"
  "span_attributes (snd (insert_prior_auth_request req_id request s)) = span_attributes s"
  "logger (snd (insert_prior_auth_request req_id request s)) = logger s"
  by (simp_all add: insert_prior_auth_request_def Let_def)

lemma all_up [simp]: "list_all (\<lambda>down. \<not> down) xs \<Longrightarrow> up xs"
  by (cases xs) (simp_all add: up_def)

lemma all_up_tl [simp]:
  "list_all (\<lambda>down. \<not> down) xs \<Longrightarrow> list_all (\<lambda>down. \<not> down) (tl xs)"
  by (cases xs) simp_all

text \<open>What \<open>log_event\<close> does to each part of the state.\<close>

lemma and_then_log_event [simp]:
  "and_then (log_event r e m) f s = f () (snd (log_event r e m s))"
  by (simp add: and_then_def log_event_eq)

lemma log_event_fields [simp]:
  "prior_auth_requests (snd (log_event r e m s)) = prior_auth_requests s"
  "request_logs (snd (log_event r e m s)) =
     (if store_up s
      then request_logs s @
             [\<lparr>log_request_id = r, event_type = e, message = m, timestamp = clock s\<rparr>]
      else request_logs s)"
  "id_seq (snd (log_event r e m s)) = id_seq s"
  "outages (snd (log_event r e m s)) = tl (outages s)"
  "clock (snd (log_event r e m s)) = clock s"
  "requests_total (snd (log_event r e m s)) = requests_total s"
  "request_duration (snd (log_event r e m s)) = request_duration s"
  "validation_failures (snd (log_event r e m s)) = validation_failures s"
  "database_operations (snd (log_event r e m s)) =
     (if store_up s
      then (database_operations s)(''insert_log'' := database_operations s ''insert_log'' + 1)
      else database_operations s)"
  "spans (snd (log_event r e m s)) = spans s"
  "span_attributes (snd (log_event r e m s)) = span_attributes s"
  "logger (snd (log_event r e m s)) =
     (if store_up s then logger s @ [(INFO, ''Logged: '' @ r @ '' - '' @ e)]
      else logger s @ [(ERROR, ''Failed to log event'')])"
  by (simp_all add: log_event_eq insert_request_log_def)

text \<open>The blocks of \<open>submit_prior_auth\<close>.\<close>

lemma and_then_vip_member_slow_query [simp]:
  "and_then (vip_member_slow_query r i) f s = f () (snd (vip_member_slow_query r i s))"
  by (simp add: vip_member_slow_query_def and_then_def effects_def)

lemma vip_member_slow_query_fields [simp]:
  "prior_auth_requests (snd (vip_member_slow_query r i s)) = prior_auth_requests s"
  "request_logs (snd (vip_member_slow_query r i s)) = request_logs s"
  "id_seq (snd (vip_member_slow_query r i s)) = id_seq s"
  "outages (snd (vip_member_slow_query r i s)) = outages s"
  "clock (snd (vip_member_slow_query r i s)) =
     (if member_id r = ''M99999'' then clock s + 2 else clock s)"
  "requests_total (snd (vip_member_slow_query r i s)) = requests_total s"
  "request_duration (snd (vip_member_slow_query r i s)) = request_duration s"
  "validation_failures (snd (vip_member_slow_query r i s)) = validation_failures s"
  "database_operations (snd (vip_member_slow_query r i s)) = database_operations s"
  "span_attributes (snd (vip_member_slow_query r i s)) =
     span_attributes s @
       (if member_id r = ''M99999''
        then [(''vip_member_slow_query'', ''delay_ms'', Num 2000),
              (''vip_member_slow_query'', ''reason'', Str ''Simulating database contention'')]
        else [])"
  by (simp_all add: vip_member_slow_query_def effects_def)

lemma validate_npi_result:
  "fst (validate_npi r i s) =
     (if \<not> isdigit (provider_npi r) \<or> length (provider_npi r) \<noteq> 10
      then Inl (HTTPException 400 ''Provider NPI must be exactly 10 digits'')
      else Inr ())"
  by (simp add: validate_npi_def)

lemma validate_npi_passed:
  "isdigit (provider_npi r) \<Longrightarrow> length (provider_npi r) = 10 \<Longrightarrow>
   snd (validate_npi r i s) = start_span ''validate_npi'' s"
  by (simp add: validate_npi_def)

lemma and_then_validate_npi [simp]:
  "and_then (validate_npi r i) f s =
     (if \<not> isdigit (provider_npi r) \<or> length (provider_npi r) \<noteq> 10
      then (Inl (HTTPException 400 ''Provider NPI must be exactly 10 digits''),
            snd (validate_npi r i s))
      else f () (start_span ''validate_npi'' s))"
  using validate_npi_result [of r i s] validate_npi_passed [of r i s]
  by (cases "validate_npi r i s") (auto simp: and_then_def)

lemma validate_npi_fields [simp]:
  "prior_auth_requests (snd (validate_npi r i s)) = prior_auth_requests s"
  "id_seq (snd (validate_npi r i s)) = id_seq s"
  "clock (snd (validate_npi r i s)) = clock s"
  "request_duration (snd (validate_npi r i s)) = request_duration s"
  "span_attributes (snd (validate_npi r i s)) = span_attributes s"
  by (simp_all add: validate_npi_def)

lemma validate_npi_failed [simp]:
  assumes "\<not> isdigit (provider_npi r) \<or> length (provider_npi r) \<noteq> 10"
  shows
  "request_logs (snd (validate_npi r i s)) =
     (if store_up s
      then request_logs s @
             [\<lparr>log_request_id = i, event_type = ''VALIDATION_FAILED'',
               message = ''Invalid NPI format: '' @ provider_npi r, timestamp = clock s\<rparr>]
      else request_logs s)"
  "outages (snd (validate_npi r i s)) = tl (outages s)"
  "requests_total (snd (validate_npi r i s)) =
     (requests_total s)((''validation_error'', ''/prior-auth/submit'') :=
        requests_total s (''validation_error'', ''/prior-auth/submit'') + 1)"
  "validation_failures (snd (validate_npi r i s)) =
     (validation_failures s)(''invalid_npi_format'' :=
        validation_failures s ''invalid_npi_format'' + 1)"
  "database_operations (snd (validate_npi r i s)) =
     (if store_up s
      then (database_operations s)(''insert_log'' := database_operations s ''insert_log'' + 1)
      else database_operations s)"
  using assms by (simp_all add: validate_npi_def)

lemma and_then_log_receipt [simp]:
  "and_then (log_receipt r) f s =
     (if store_up s
      then f (''PA-'' @ format_05d (length (prior_auth_requests s) + 1))
             (snd (log_receipt r s))
      else (Inl DatabaseError, used (start_span ''submit_prior_auth'' s)))"
  by (simp add: log_receipt_def)

lemma log_receipt_fields [simp]:
  assumes "store_up s"
  shows
  "prior_auth_requests (snd (log_receipt r s)) = prior_auth_requests s"
  "request_logs (snd (log_receipt r s)) =
     (if store_up (used s)
      then request_logs s @
             [\<lparr>log_request_id = ''PA-'' @ format_05d (length (prior_auth_requests s) + 1),
               event_type = ''REQUEST_RECEIVED'',
               message = ''Submitted by provider NPI '' @ provider_npi r,
               timestamp = (if member_id r = ''M99999'' then clock s + 2 else clock s)\<rparr>]
      else request_logs s)"
  "id_seq (snd (log_receipt r s)) = id_seq s"
  "outages (snd (log_receipt r s)) = tl (tl (outages s))"
  "clock (snd (log_receipt r s)) = (if member_id r = ''M99999'' then clock s + 2 else clock s)"
  "requests_total (snd (log_receipt r s)) = requests_total s"
  "request_duration (snd (log_receipt r s)) = request_duration s"
  "validation_failures (snd (log_receipt r s)) = validation_failures s"
  "database_operations (snd (log_receipt r s)) =
     (if store_up (used s)
      then (database_operations s)(''insert_log'' := database_operations s ''insert_log'' + 1)
      else database_operations s)"
  "span_attributes (snd (log_receipt r s)) =
     span_attributes s @
       (if member_id r = ''M99999''
        then [(''vip_member_slow_query'', ''delay_ms'', Num 2000),
              (''vip_member_slow_query'', ''reason'', Str ''Simulating database contention'')]
        else []) @
       [(''submit_prior_auth'', ''request.id'',
           Str (''PA-'' @ format_05d (length (prior_auth_requests s) + 1))),
        (''submit_prior_auth'', ''request.member_id'', Str (member_id r)),
        (''submit_prior_auth'', ''request.provider_npi'', Str (provider_npi r))]"
  using assms by (simp_all add: log_receipt_def)

lemma log_success_result [simp]: "fst (log_success r i row s) = Inr row"
  by (simp add: log_success_def)

lemma log_success_fields [simp]:
  "prior_auth_requests (snd (log_success r i row s)) = prior_auth_requests s"
  "request_logs (snd (log_success r i row s)) =
     request_logs s @
     (if store_up s
      then [\<lparr>log_request_id = i, event_type = ''SAVED_TO_DATABASE'',
              message = ''Request saved for member '' @ member_id r, timestamp = clock s\<rparr>]
      else []) @
     (if store_up (used s)
      then [\<lparr>log_request_id = i, event_type = ''STATUS_PENDING'',
              message = ''Awaiting review'', timestamp = clock s\<rparr>]
      else [])"
  "id_seq (snd (log_success r i row s)) = id_seq s"
  "outages (snd (log_success r i row s)) = tl (tl (outages s))"
  "clock (snd (log_success r i row s)) = clock s"
  "requests_total (snd (log_success r i row s)) =
     (requests_total s)((''success'', ''/prior-auth/submit'') :=
        requests_total s (''success'', ''/prior-auth/submit'') + 1)"
  "request_duration (snd (log_success r i row s)) = request_duration s"
  "validation_failures (snd (log_success r i row s)) = validation_failures s"
  "database_operations (snd (log_success r i row s)) l =
     database_operations s l +
       (if l = ''insert_log''
        then (if store_up s then 1 else 0) + (if store_up (used s) then 1 else 0) else 0)"
  "span_attributes (snd (log_success r i row s)) = span_attributes s"
  by (simp_all add: log_success_def)

lemma and_then_generate_request_id [simp]:
  "and_then generate_request_id f s =
     (if store_up s
      then f (''PA-'' @ format_05d (length (prior_auth_requests s) + 1))
             (used (start_span ''generate_request_id'' s))
      else (Inl DatabaseError, used (start_span ''generate_request_id'' s)))"
  by (simp add: generate_request_id_def and_then_def effects_def get_next_request_id_eq)

lemma and_then_database_insert [simp]:
  "and_then (database_insert r i) f s =
     (if store_up s
      then f (fst (insert_prior_auth_request i r (used (start_span ''database_insert'' s))))
             (record_database_operation ''insert_request''
               (snd (insert_prior_auth_request i r (used (start_span ''database_insert'' s)))))
      else (Inl DatabaseError, used (start_span ''database_insert'' s)))"
  by (simp add: database_insert_def and_then_def effects_def execute_query_eq)

section \<open>What one submission and one operation do\<close>

lemma up_simps [simp]: "up [] = True" "up (d # xs) = (\<not> d)"
  by (simp_all add: up_def)

lemma submit_rows:
  "prior_auth_requests (snd (submit_prior_auth r s)) =
     (case fst (submit_prior_auth r s) of
        Inr row \<Rightarrow> prior_auth_requests s @ [row]
      | Inl e \<Rightarrow> prior_auth_requests s)"
  by (simp add: submit_prior_auth_def)

lemma submit_id:
  "fst (submit_prior_auth r s) = Inr row \<Longrightarrow>
   request_id row = ''PA-'' @ format_05d (length (prior_auth_requests s) + 1)"
  by (auto simp add: submit_prior_auth_def split: if_splits)

lemma submit_success_total:
  "requests_total (snd (submit_prior_auth r s)) (''success'', ''/prior-auth/submit'') =
     requests_total s (''success'', ''/prior-auth/submit'') +
       (case fst (submit_prior_auth r s) of Inr row \<Rightarrow> 1 | Inl e \<Rightarrow> 0)"
  by (simp add: submit_prior_auth_def)

lemma submit_failures:
  "validation_failures (snd (submit_prior_auth r s)) ''invalid_npi_format'' =
     validation_failures s ''invalid_npi_format'' +
       (if fst (submit_prior_auth r s) =
            Inl (HTTPException 400 ''Provider NPI must be exactly 10 digits'') then 1 else 0)"
  by (simp add: submit_prior_auth_def)

lemma submit_total_mono:
  "requests_total s k \<le> requests_total (snd (submit_prior_auth r s)) k"
  by (simp add: submit_prior_auth_def)

lemma submit_failures_mono:
  "validation_failures s l \<le> validation_failures (snd (submit_prior_auth r s)) l"
  by (simp add: submit_prior_auth_def)

lemma health_check_eq:
  "health_check s =
     (if store_up s
      then (Inr (HealthCheck ''healthy'' ''connected'' (clock s)),
            observe ''/health'' (record_request ''success'' ''/health'' (used s)))
      else (Inr (HealthCheck ''unhealthy'' ''disconnected'' (clock s)),
            observe ''/health'' (record_request ''error'' ''/health'' (used s))))"
  by (simp add: health_check_def RequestTimer_def try_except_def and_then_def
      get_db_connection_eq effects_def gets_def)

lemma trigger_error_fields [simp]:
  "prior_auth_requests (snd (trigger_error err s)) = prior_auth_requests s"
  "validation_failures (snd (trigger_error err s)) = validation_failures s"
  "requests_total (snd (trigger_error err s)) (''success'', ''/prior-auth/submit'') =
     requests_total s (''success'', ''/prior-auth/submit'')"
  "requests_total s k \<le> requests_total (snd (trigger_error err s)) k"
  by (simp_all add: trigger_error_def)

lemma trigger_error_result:
  "fst (trigger_error err s) =
     (if error_type err = ''database_timeout''
      then Inl (HTTPException 503 ''Database timeout'')
      else if error_type err = ''validation_error''
      then Inl (HTTPException 400 ''Validation failed'')
      else Inr (error_type err))"
  by (simp add: trigger_error_def)

lemma list_requests_fields [simp]:
  "prior_auth_requests (snd (list_requests s)) = prior_auth_requests s"
  "validation_failures (snd (list_requests s)) = validation_failures s"
  "requests_total (snd (list_requests s)) (''success'', ''/prior-auth/submit'') =
     requests_total s (''success'', ''/prior-auth/submit'')"
  "requests_total s k \<le> requests_total (snd (list_requests s)) k"
  by (simp_all add: list_requests_def RequestTimer_def select_requests_def split: prod.splits)

lemma get_request_logs_fields [simp]:
  "prior_auth_requests (snd (get_request_logs i s)) = prior_auth_requests s"
  "validation_failures (snd (get_request_logs i s)) = validation_failures s"
  "requests_total (snd (get_request_logs i s)) = requests_total s"
  by (simp_all add: get_request_logs_def select_logs_def)

lemma root_fields [simp]:
  "prior_auth_requests (snd (root s)) = prior_auth_requests s"
  "validation_failures (snd (root s)) = validation_failures s"
  "requests_total (snd (root s)) (''success'', ''/prior-auth/submit'') =
     requests_total s (''success'', ''/prior-auth/submit'')"
  "requests_total s k \<le> requests_total (snd (root s)) k"
  by (simp_all add: root_def)

lemma health_check_fields [simp]:
  "prior_auth_requests (snd (health_check s)) = prior_auth_requests s"
  "validation_failures (snd (health_check s)) = validation_failures s"
  "requests_total (snd (health_check s)) (''success'', ''/prior-auth/submit'') =
     requests_total s (''success'', ''/prior-auth/submit'')"
  "requests_total s k \<le> requests_total (snd (health_check s)) k"
  by (simp_all add: health_check_eq)

lemma metrics_state [simp]: "snd (metrics s) = s"
  by (simp add: metrics_def gets_def)

lemma and_then_ret_map:
  "and_then m (\<lambda>x. ret (g x)) s =
     (case fst (m s) of Inl e \<Rightarrow> Inl e | Inr x \<Rightarrow> Inr (g x), snd (m s))"
  by (cases "m s") (auto simp: and_then_def split: sum.splits)

declare handle.simps [simp del]

lemma handle_state:
  "snd (handle op s) =
     (case op of
        GetRoot \<Rightarrow> snd (root s)
      | GetHealth \<Rightarrow> snd (health_check s)
      | GetMetrics \<Rightarrow> s
      | PostSubmit r \<Rightarrow>
          (if PriorAuthRequest_schema r then snd (submit_prior_auth r s) else s)
      | GetRequests \<Rightarrow> snd (list_requests s)
      | GetRequestLogs i \<Rightarrow> snd (get_request_logs i s)
      | PostTestErrors err \<Rightarrow> snd (trigger_error err s))"
  by (cases op) (simp_all add: handle.simps and_then_ret_map case_prod_unfold)

lemma handle_created:
  "created (fst (handle op s)) =
     (case op of
        PostSubmit r \<Rightarrow>
          (if PriorAuthRequest_schema r
           then (case fst (submit_prior_auth r s) of Inr row \<Rightarrow> [row] | Inl e \<Rightarrow> [])
           else [])
      | _ \<Rightarrow> [])"
  by (cases op) (simp_all add: handle.simps and_then_ret_map case_prod_unfold split: sum.splits)

lemma other_results:
  "fst (root s) \<noteq> Inl (HTTPException c m)"
  "fst (health_check s) \<noteq> Inl (HTTPException c m)"
  "fst (metrics s) \<noteq> Inl (HTTPException c m)"
  "fst (list_requests s) \<noteq> Inl (HTTPException c m)"
  "fst (get_request_logs i s) \<noteq> Inl (HTTPException c m)"
  by (simp_all add: root_def health_check_eq metrics_def gets_def list_requests_def
      RequestTimer_def get_request_logs_def split: prod.splits)

lemma handle_invalid_npi:
  "is_invalid_npi (fst (handle op s)) =
     (case op of
        PostSubmit r \<Rightarrow> PriorAuthRequest_schema r \<and>
          fst (submit_prior_auth r s) =
            Inl (HTTPException 400 ''Provider NPI must be exactly 10 digits'')
      | _ \<Rightarrow> False)"
  by (cases op)
    (auto simp add: handle.simps is_invalid_npi_def and_then_ret_map case_prod_unfold
      trigger_error_result other_results split: sum.splits)

lemma run_Cons:
  "fst (run (op # ops) s) = fst (handle op s) # fst (run ops (snd (handle op s)))"
  "snd (run (op # ops) s) = snd (run ops (snd (handle op s)))"
  by (simp_all add: run.simps(2) split: prod.splits)

declare run.simps(2) [simp del]

lemma handle_rows:
  "prior_auth_requests (snd (handle op s)) =
     prior_auth_requests s @ created (fst (handle op s))"
  by (cases op) (simp_all add: handle_state handle_created submit_rows split: sum.splits)

lemma handle_success_total:
  "requests_total (snd (handle op s)) (''success'', ''/prior-auth/submit'') =
     requests_total s (''success'', ''/prior-auth/submit'') +
       length (created (fst (handle op s)))"
  by (cases op)
    (simp_all add: handle_state handle_created submit_success_total split: sum.splits)

lemma handle_failures:
  "validation_failures (snd (handle op s)) ''invalid_npi_format'' =
     validation_failures s ''invalid_npi_format'' +
       (if is_invalid_npi (fst (handle op s)) then 1 else 0)"
  by (cases op) (simp_all add: handle_state handle_invalid_npi submit_failures)

lemma handle_mono:
  "requests_total s k \<le> requests_total (snd (handle op s)) k"
  "validation_failures s l \<le> validation_failures (snd (handle op s)) l"
  by (cases op; simp add: handle_state submit_total_mono submit_failures_mono)+

lemma handle_id:
  "created (fst (handle op s)) = [row] \<Longrightarrow>
   request_id row = ''PA-'' @ format_05d (length (prior_auth_requests s) + 1)"
  by (cases op) (auto simp: handle_created submit_id split: sum.splits if_splits)

lemma created_length: "length (created r) \<le> 1"
  by (cases r rule: created.cases) simp_all

lemma run_rows:
  "prior_auth_requests (snd (run ops s)) =
     prior_auth_requests s @ concat (map created (fst (run ops s)))"
  by (induction ops arbitrary: s) (simp_all add: run_Cons handle_rows)

lemma run_success_total:
  "requests_total (snd (run ops s)) (''success'', ''/prior-auth/submit'') =
     requests_total s (''success'', ''/prior-auth/submit'') +
       length (filter is_created (fst (run ops s)))"
proof (induction ops arbitrary: s)
  case Nil
  show ?case by simp
next
  case (Cons op ops)
  have "length (created (fst (handle op s))) = (if is_created (fst (handle op s)) then 1 else 0)"
    using created_length [of "fst (handle op s)"]
    by (cases "created (fst (handle op s))") (simp_all add: is_created_def)
  then show ?case
    by (simp add: run_Cons Cons.IH handle_success_total)
qed

lemma run_failures:
  "validation_failures (snd (run ops s)) ''invalid_npi_format'' =
     validation_failures s ''invalid_npi_format'' +
       length (filter is_invalid_npi (fst (run ops s)))"
  by (induction ops arbitrary: s)
    (simp_all add: run_Cons handle_failures)

lemma run_mono:
  "requests_total s k \<le> requests_total (snd (run ops s)) k"
  "validation_failures s l \<le> validation_failures (snd (run ops s)) l"
proof (induction ops arbitrary: s)
  case Nil
  { case 1 show ?case by simp }
  { case 2 show ?case by simp }
next
  case (Cons op ops)
  { case 1 show ?case
      using handle_mono(1) [of s k op] Cons.IH(1) [of "snd (handle op s)"]
      by (simp add: run_Cons) }
  { case 2 show ?case
      using handle_mono(2) [of s l op] Cons.IH(2) [of "snd (handle op s)"]
      by (simp add: run_Cons) }
qed

lemma run_ids:
  "created_ids (fst (run ops s)) =
     map (\<lambda>k. ''PA-'' @ format_05d k)
       [length (prior_auth_requests s) + 1 ..<
        length (prior_auth_requests (snd (run ops s))) + 1]"
proof (induction ops arbitrary: s)
  case Nil
  show ?case by (simp add: created_ids_def)
next
  case (Cons op ops)
  let ?s1 = "snd (handle op s)"
  have le: "length (prior_auth_requests ?s1) \<le> length (prior_auth_requests (snd (run ops ?s1)))"
    by (simp add: run_rows [of ops ?s1])
  show ?case
  proof (cases "created (fst (handle op s))")
    case Nil
    then show ?thesis
      using Cons.IH [of ?s1] handle_rows [of op s]
      by (simp add: run_Cons created_ids_def)
  next
    case (Cons row rest)
    with created_length [of "fst (handle op s)"] have one: "created (fst (handle op s)) = [row]"
      by simp
    have len: "length (prior_auth_requests ?s1) = length (prior_auth_requests s) + 1"
      using handle_rows [of op s] one by simp
    from le len have "[length (prior_auth_requests s) + 1 ..<
        length (prior_auth_requests (snd (run ops ?s1))) + 1] =
      (length (prior_auth_requests s) + 1) #
        [length (prior_auth_requests ?s1) + 1 ..<
         length (prior_auth_requests (snd (run ops ?s1))) + 1]"
      by (simp add: upt_conv_Cons)
    then show ?thesis
      using Cons.IH [of ?s1] handle_id [OF one] one
      by (simp add: run_Cons created_ids_def)
  qed
qed

lemma valid_request_npi:
  "isdigit (provider_npi valid_request)" "length (provider_npi valid_request) = 10"
  by (simp_all add: valid_request_def isdigit_def isdigit_char_def)

lemma invalid_request_npi:
  "\<not> isdigit (provider_npi invalid_request)" "length (provider_npi invalid_request) = 10"
  by (simp_all add: invalid_request_def isdigit_def isdigit_char_def)

lemma submit_raises_iff:
  "store_up s \<Longrightarrow>
   (fst (submit_prior_auth r s) =
      Inl (HTTPException 400 ''Provider NPI must be exactly 10 digits'')) =
   (\<not> isdigit (provider_npi r) \<or> length (provider_npi r) \<noteq> 10)"
  by (simp add: submit_prior_auth_def)

lemma format_05d_1: "format_05d (Suc 0) = ''00001''"
  by code_simp

lemma format_05d_2: "format_05d (Suc (Suc 0)) = ''00002''"
  by code_simp

lemma format_05d_values:
  "format_05d 99999 = ''99999''" "format_05d 100000 = ''100000''"
  by (simp_all add: format_05d_def decimal.simps digit_char_def)

lemma request_fields:
  "member_id valid_request = ''M10001''" "provider_npi valid_request = ''1234567890''"
  "diagnosis_code valid_request = ''E11.9''" "requested_service valid_request = ''MRI_BRAIN''"
  "member_id invalid_request = ''M20002''" "provider_npi invalid_request = ''ABCDEFGHIJ''"
  "diagnosis_code invalid_request = ''E11''" "requested_service invalid_request = ''TEST''"
  "member_id superscript_request = ''M10001''"
  "provider_npi superscript_request = ''123456789'' @ [CHR 0xB2]"
  "diagnosis_code superscript_request = ''E11.9''"
  "requested_service superscript_request = ''MRI_BRAIN''"
  by (simp_all add: valid_request_def invalid_request_def superscript_request_def)

lemma request_schema:
  "PriorAuthRequest_schema valid_request" "PriorAuthRequest_schema invalid_request"
  "PriorAuthRequest_schema superscript_request"
  by (simp_all add: PriorAuthRequest_schema_def request_fields)


lemma fresh_fields:
  "prior_auth_requests fresh = []" "request_logs fresh = []" "id_seq fresh = 0"
  "outages fresh = []" "clock fresh = 0" "requests_total fresh k = 0"
  "validation_failures fresh l = 0" "database_operations fresh l = 0"
  "span_attributes fresh = []"
  by (simp_all add: fresh_def)

lemma submit_available_result:
  "isdigit (provider_npi r) \<Longrightarrow> length (provider_npi r) = 10 \<Longrightarrow> available s \<Longrightarrow>
   fst (submit_prior_auth r s) =
     Inr \<lparr>member_id = member_id r, provider_npi = provider_npi r,
       diagnosis_code = diagnosis_code r, requested_service = requested_service r,
       row_id = id_seq s + 1,
       request_id = ''PA-'' @ format_05d (length (prior_auth_requests s) + 1),
       status = ''pending'',
       created_at = (if member_id r = ''M99999'' then clock s + 2 else clock s)\<rparr>"
  by (simp add: submit_prior_auth_def)

lemma submit_available: "available s \<Longrightarrow> available (snd (submit_prior_auth r s))"
  by (simp add: submit_prior_auth_def)

lemma submit_id_seq:
  "id_seq (snd (submit_prior_auth r s)) =
     (case fst (submit_prior_auth r s) of Inr row \<Rightarrow> id_seq s + 1 | Inl e \<Rightarrow> id_seq s)"
  by (simp add: submit_prior_auth_def)

lemma submit_clock:
  "member_id r \<noteq> ''M99999'' \<Longrightarrow> clock (snd (submit_prior_auth r s)) = clock s"
  by (simp add: submit_prior_auth_def)



lemma ten_digits:
  "length npi = 10 \<Longrightarrow> list_all ascii_digit npi \<Longrightarrow> isdigit npi"
  by (auto simp: isdigit_def isdigit_char_def ascii_digit_def list_all_iff)

lemma valid_request_digits: "list_all ascii_digit (provider_npi valid_request)"
  by (simp add: request_fields ascii_digit_def)

section \<open>The demonstration run\<close>

text \<open>
  A valid submission, an invalid one and a valid one again, on a process that has just
  started: the outcomes, and the number of rows at the end.
\<close>

lemma handle_submit:
  "PriorAuthRequest_schema r \<Longrightarrow>
   fst (handle (PostSubmit r) s) =
     (case fst (submit_prior_auth r s) of Inl e \<Rightarrow> Inl e | Inr row \<Rightarrow> Inr (Created row))"
  "PriorAuthRequest_schema r \<Longrightarrow> snd (handle (PostSubmit r) s) = snd (submit_prior_auth r s)"
  by (simp_all add: handle.simps and_then_ret_map)

lemma demo_first_submit:
  "fst (submit_prior_auth valid_request fresh) =
     Inr \<lparr>member_id = ''M10001'', provider_npi = ''1234567890'',
       diagnosis_code = ''E11.9'', requested_service = ''MRI_BRAIN'', row_id = 1,
       request_id = ''PA-00001'', status = ''pending'', created_at = 0\<rparr>"
  using valid_request_npi
  by (simp add: submit_available_result request_fields fresh_fields format_05d_1)

lemma demo_run_outcomes:
  "fst (run [PostSubmit valid_request, PostSubmit invalid_request, PostSubmit valid_request]
     fresh) =
   [Inr (Created \<lparr>member_id = ''M10001'', provider_npi = ''1234567890'',
       diagnosis_code = ''E11.9'', requested_service = ''MRI_BRAIN'', row_id = 1,
       request_id = ''PA-00001'', status = ''pending'', created_at = 0\<rparr>),
    Inl (HTTPException 400 ''Provider NPI must be exactly 10 digits''),
    Inr (Created \<lparr>member_id = ''M10001'', provider_npi = ''1234567890'',
       diagnosis_code = ''E11.9'', requested_service = ''MRI_BRAIN'', row_id = 2,
       request_id = ''PA-00002'', status = ''pending'', created_at = 0\<rparr>)]"
proof -
  let ?s1 = "snd (submit_prior_auth valid_request fresh)"
  let ?s2 = "snd (submit_prior_auth invalid_request ?s1)"
  have a0: "available fresh" by (simp add: fresh_fields)
  then have a1: "available ?s1" by (rule submit_available)
  then have a2: "available ?s2" by (rule submit_available)
  note o1 = demo_first_submit
  have o2: "fst (submit_prior_auth invalid_request ?s1) =
      Inl (HTTPException 400 ''Provider NPI must be exactly 10 digits'')"
    using a1 invalid_request_npi submit_raises_iff [of ?s1 invalid_request]
    by simp
  have n1: "length (prior_auth_requests ?s1) = 1" "id_seq ?s1 = 1" "clock ?s1 = 0"
    using submit_rows [of valid_request fresh] submit_id_seq [of valid_request fresh] o1
    by (simp_all add: submit_clock fresh_fields request_fields)
  have n2: "length (prior_auth_requests ?s2) = 1" "id_seq ?s2 = 1" "clock ?s2 = 0"
    using submit_rows [of invalid_request ?s1] submit_id_seq [of invalid_request ?s1] o2 n1
    by (simp_all add: submit_clock request_fields)
  have o3: "fst (submit_prior_auth valid_request ?s2) =
      Inr \<lparr>member_id = ''M10001'', provider_npi = ''1234567890'',
       diagnosis_code = ''E11.9'', requested_service = ''MRI_BRAIN'', row_id = 2,
       request_id = ''PA-00002'', status = ''pending'', created_at = 0\<rparr>"
    using a2 valid_request_npi
    by (simp add: submit_available_result request_fields n2 format_05d_2)
  show ?thesis
    by (simp add: run_Cons handle_submit request_schema o1 o2 o3)
qed

lemma demo_run_rows:
  "length (prior_auth_requests (snd (run [PostSubmit valid_request, PostSubmit invalid_request,
     PostSubmit valid_request] fresh))) = 2"
  by (simp add: run_rows demo_run_outcomes fresh_fields)

lemma run_valid_count:
  "available s \<Longrightarrow>
   length (prior_auth_requests (snd (run (replicate n (PostSubmit valid_request)) s))) =
     length (prior_auth_requests s) + n"
proof (induction n arbitrary: s)
  case 0
  show ?case by simp
next
  case (Suc n)
  have "length (prior_auth_requests (snd (submit_prior_auth valid_request s))) =
      length (prior_auth_requests s) + 1"
    using Suc.prems valid_request_npi
    by (simp add: submit_rows submit_available_result)
  then show ?case
    using Suc.IH [OF submit_available [OF Suc.prems, of valid_request]]
    by (simp add: run_Cons handle_submit request_schema)
qed

section \<open>Identifiers below the sixth digit\<close>

lemma id_matches: "k < 100000 \<Longrightarrow> matches_PA_5d (''PA-'' @ format_05d k)"
  by (simp add: matches_PA_5d_def format_05d_padded padded_digits)

lemma id_less:
  "j < k \<Longrightarrow> k < 100000 \<Longrightarrow> str_lt (''PA-'' @ format_05d j) (''PA-'' @ format_05d k)"
  using padded_less [of j k 5] by (simp add: format_05d_padded)

lemma ids_sorted:
  "b \<le> 100000 \<Longrightarrow> sorted_wrt str_lt (map (\<lambda>k. ''PA-'' @ format_05d k) [a..<b])"
proof -
  assume b: "b \<le> 100000"
  have "sorted_wrt (\<lambda>j k. str_lt (''PA-'' @ format_05d j) (''PA-'' @ format_05d k)) [a..<b]"
  proof (rule sorted_wrt_mono_rel [of _ "(<)"])
    fix j k assume "j \<in> set [a..<b]" "k \<in> set [a..<b]" "j < k"
    with b show "str_lt (''PA-'' @ format_05d j) (''PA-'' @ format_05d k)"
      by (intro id_less) auto
  next
    show "sorted_wrt (<) [a..<b]" by simp
  qed
  then show ?thesis by (simp add: sorted_wrt_map)
qed

lemma ids_match:
  "b \<le> 100000 \<Longrightarrow> list_all matches_PA_5d (map (\<lambda>k. ''PA-'' @ format_05d k) [a..<b])"
  using id_matches by (auto simp: list_all_iff)

section \<open>The identifier and the audit events of one submission\<close>

lemma submit_store_up: "fst (submit_prior_auth r s) = Inr row \<Longrightarrow> store_up s"
  by (simp add: submit_prior_auth_def split: if_splits)

lemma submit_valid:
  "fst (submit_prior_auth r s) = Inr row \<Longrightarrow>
   isdigit (provider_npi r) \<and> length (provider_npi r) = 10"
  by (simp add: submit_prior_auth_def split: if_splits)

lemma submit_second_up:
  "fst (submit_prior_auth r s) = Inr row \<Longrightarrow>
   store_up (start_span ''validate_npi'' (snd (log_receipt r s)))"
  by (simp add: submit_prior_auth_def split: if_splits)

lemma log_receipt_result:
  "store_up s \<Longrightarrow>
   fst (log_receipt r s) = Inr (''PA-'' @ format_05d (length (prior_auth_requests s) + 1))"
  by (simp add: log_receipt_def)

lemma get_next_request_id_result:
  "store_up s \<Longrightarrow>
   fst (get_next_request_id s) = Inr (''PA-'' @ format_05d (length (prior_auth_requests s) + 1))"
  by (simp add: get_next_request_id_eq)

lemma generate_request_id_result:
  "store_up s \<Longrightarrow>
   fst (generate_request_id s) =
     Inr (''PA-'' @ format_05d (length (prior_auth_requests s) + 1))"
  by (simp add: generate_request_id_def and_then_def effects_def get_next_request_id_eq)

lemma submit_root_attribute:
  "store_up s \<Longrightarrow>
   map (snd \<circ> snd)
     (filter (\<lambda>a. fst a = ''submit_prior_auth'' \<and> fst (snd a) = ''request.id'')
        (drop (length (span_attributes s)) (span_attributes (snd (submit_prior_auth r s))))) =
   [Str (''PA-'' @ format_05d (length (prior_auth_requests s) + 1))]"
  by (simp add: submit_prior_auth_def)

lemma submit_new_ids:
  "list_all (\<lambda>e. fst e = ''PA-'' @ format_05d (length (prior_auth_requests s) + 1))
     (new_events s (snd (submit_prior_auth r s)))"
  by (simp add: submit_prior_auth_def new_events_def)

lemma submit_first_event:
  "fst (submit_prior_auth r s) = Inr row \<Longrightarrow> store_up (used s) \<Longrightarrow>
   take 1 (new_events s (snd (submit_prior_auth r s))) =
     [(''PA-'' @ format_05d (length (prior_auth_requests s) + 1), ''REQUEST_RECEIVED'')]"
  by (simp add: submit_prior_auth_def new_events_def split: if_splits)






section \<open>The provider identifier check\<close>






section \<open>Failures of the store\<close>

text \<open>
  C6. \<open>log_event\<close> never raises. When its write to the store fails it leaves the audit
  table and the database-operation counter as they were and writes one error line to the
  local log. A submission whose four audit writes all fail, while its own three store
  calls succeed, still returns the created record.
\<close>

theorem log_event_swallows_failure:
  "fst (log_event i e m s) = Inr () \<and>
   (\<not> store_up s \<longrightarrow>
      request_logs (snd (log_event i e m s)) = request_logs s \<and>
      logger (snd (log_event i e m s)) = logger s @ [(ERROR, ''Failed to log event'')] \<and>
      database_operations (snd (log_event i e m s)) = database_operations s) \<and>
   (isdigit (provider_npi r) \<and> length (provider_npi r) = 10 \<and>
    outages t = False # True # False # True # False # True # True # rest \<longrightarrow>
      (\<exists>row. fst (submit_prior_auth r t) = Inr row \<and>
         prior_auth_requests (snd (submit_prior_auth r t)) = prior_auth_requests t @ [row]) \<and>
      request_logs (snd (submit_prior_auth r t)) = request_logs t)"
proof -
  have a: "fst (log_event i e m s) = Inr ()"
    by (simp add: log_event_eq)
  have b: "\<not> store_up s \<longrightarrow>
      request_logs (snd (log_event i e m s)) = request_logs s \<and>
      logger (snd (log_event i e m s)) = logger s @ [(ERROR, ''Failed to log event'')] \<and>
      database_operations (snd (log_event i e m s)) = database_operations s"
    by simp
  have c: "(\<exists>row. fst (submit_prior_auth r t) = Inr row \<and>
         prior_auth_requests (snd (submit_prior_auth r t)) = prior_auth_requests t @ [row]) \<and>
      request_logs (snd (submit_prior_auth r t)) = request_logs t"
    if "isdigit (provider_npi r)" "length (provider_npi r) = 10"
      "outages t = False # True # False # True # False # True # True # rest"
    using that by (simp add: submit_prior_auth_def)
  show ?thesis using a b c by blast
qed

theorem log_event_swallows_failure_witness:
  "fst (log_event ''PA-00001'' ''REQUEST_RECEIVED'' ''x'' (fresh\<lparr>outages := [True]\<rparr>)) = Inr () \<and>
   request_logs (snd (log_event ''PA-00001'' ''REQUEST_RECEIVED'' ''x''
     (fresh\<lparr>outages := [True]\<rparr>))) = [] \<and>
   (\<exists>row. fst (submit_prior_auth valid_request
      (fresh\<lparr>outages := [False, True, False, True, False, True, True]\<rparr>)) = Inr row) \<and>
   request_logs (snd (submit_prior_auth valid_request
      (fresh\<lparr>outages := [False, True, False, True, False, True, True]\<rparr>))) = []"
  using log_event_swallows_failure [of "''PA-00001''" "''REQUEST_RECEIVED''" "''x''"
      "fresh\<lparr>outages := [True]\<rparr>" valid_request
      "fresh\<lparr>outages := [False, True, False, True, False, True, True]\<rparr>" "[]"]
    valid_request_npi
  by (auto simp add: fresh_def)

text \<open>
  C7. \<open>health_check\<close> never raises: it returns the healthy answer with the time when the
  store can be reached and the unhealthy answer when it cannot, and counts the request
  under \<open>success\<close> or \<open>error\<close>.
\<close>

theorem health_check_returns:
  "fst (health_check s) =
     Inr (if store_up s then HealthCheck ''healthy'' ''connected'' (clock s)
          else HealthCheck ''unhealthy'' ''disconnected'' (clock s)) \<and>
   requests_total (snd (health_check s))
       (if store_up s then ''success'' else ''error'', ''/health'') =
     requests_total s (if store_up s then ''success'' else ''error'', ''/health'') + 1"
  by (simp add: health_check_eq)

theorem health_check_returns_witness:
  "fst (health_check (fresh\<lparr>outages := [True]\<rparr>)) =
     Inr (HealthCheck ''unhealthy'' ''disconnected'' 0) \<and>
   fst (health_check fresh) = Inr (HealthCheck ''healthy'' ''connected'' 0)"
  using health_check_returns [of "fresh\<lparr>outages := [True]\<rparr>"] health_check_returns [of fresh]
  by (simp add: fresh_def)

section \<open>The error-injection operation\<close>

text \<open>
  C4. \<open>trigger_error\<close> is a three-way case split on \<open>error_type\<close>: \<open>database_timeout\<close>
  sleeps five seconds and raises the 503 error, \<open>validation_error\<close> raises the 400 error
  without sleeping, and every other string raises nothing and returns the given string.
\<close>

theorem trigger_error_three_way:
  "fst (trigger_error err s) =
     (if error_type err = ''database_timeout''
      then Inl (HTTPException 503 ''Database timeout'')
      else if error_type err = ''validation_error''
      then Inl (HTTPException 400 ''Validation failed'')
      else Inr (error_type err)) \<and>
   clock (snd (trigger_error err s)) =
     (if error_type err = ''database_timeout'' then clock s + 5 else clock s)"
  by (simp add: trigger_error_result trigger_error_def)

theorem trigger_error_three_way_witness:
  "fst (trigger_error \<lparr>error_type = ''database_timeout''\<rparr> fresh) =
     Inl (HTTPException 503 ''Database timeout'') \<and>
   clock (snd (trigger_error \<lparr>error_type = ''database_timeout''\<rparr> fresh)) = 5 \<and>
   fst (trigger_error \<lparr>error_type = ''validation_error''\<rparr> fresh) =
     Inl (HTTPException 400 ''Validation failed'') \<and>
   clock (snd (trigger_error \<lparr>error_type = ''validation_error''\<rparr> fresh)) = 0 \<and>
   fst (trigger_error \<lparr>error_type = ''other''\<rparr> fresh) = Inr ''other'' \<and>
   clock (snd (trigger_error \<lparr>error_type = ''other''\<rparr> fresh)) = 0"
  using trigger_error_three_way [of "\<lparr>error_type = ''database_timeout''\<rparr>" fresh]
    trigger_error_three_way [of "\<lparr>error_type = ''validation_error''\<rparr>" fresh]
    trigger_error_three_way [of "\<lparr>error_type = ''other''\<rparr>" fresh]
  by (simp add: fresh_def)

section \<open>Counters\<close>

text \<open>
  C10. Every audit write that succeeds adds one to the database-operation counter under
  the label \<open>insert_log\<close>; a submission that succeeds with the store reachable throughout
  adds four under \<open>insert_log\<close>, one under \<open>insert_request\<close> and nothing under any other
  label.
\<close>

theorem database_operation_counts:
  "(store_up s \<longrightarrow>
      database_operations (snd (log_event i e m s)) =
        (database_operations s)(''insert_log'' := database_operations s ''insert_log'' + 1)) \<and>
   (isdigit (provider_npi r) \<and> length (provider_npi r) = 10 \<and> available t \<longrightarrow>
      database_operations (snd (submit_prior_auth r t)) l =
        database_operations t l +
          (if l = ''insert_log'' then 4 else if l = ''insert_request'' then 1 else 0))"
  by (simp add: submit_prior_auth_def)

theorem database_operation_counts_witness:
  "database_operations (snd (log_event ''PA-00001'' ''REQUEST_RECEIVED'' ''x'' fresh))
     ''insert_log'' = 1 \<and>
   database_operations (snd (submit_prior_auth valid_request fresh)) ''insert_log'' = 4 \<and>
   database_operations (snd (submit_prior_auth valid_request fresh)) ''insert_request'' = 1 \<and>
   database_operations (snd (submit_prior_auth valid_request fresh)) ''select_logs'' = 0"
  using database_operation_counts [of fresh "''PA-00001''" "''REQUEST_RECEIVED''" "''x''"
      valid_request fresh "''insert_log''"]
    database_operation_counts [of fresh "''PA-00001''" "''REQUEST_RECEIVED''" "''x''"
      valid_request fresh "''insert_request''"]
    database_operation_counts [of fresh "''PA-00001''" "''REQUEST_RECEIVED''" "''x''"
      valid_request fresh "''select_logs''"]
    valid_request_npi
  by (simp add: fresh_def)

text \<open>
  C5. Over a serialized run of operations of any kind, the request counter labelled
  \<open>success\<close> for the submit endpoint goes up by exactly the number of submissions that
  returned a created record, and the validation-failure counter labelled
  \<open>invalid_npi_format\<close> by exactly the number of submissions that raised the 400 error
  of the provider identifier check; no operation lowers either counter under any label;
  and the metrics operation returns the counters as they are.
\<close>

theorem counters_after_run:
  "requests_total (snd (run ops s)) (''success'', ''/prior-auth/submit'') =
     requests_total s (''success'', ''/prior-auth/submit'') +
       length (filter is_created (fst (run ops s))) \<and>
   validation_failures (snd (run ops s)) ''invalid_npi_format'' =
     validation_failures s ''invalid_npi_format'' +
       length (filter is_invalid_npi (fst (run ops s))) \<and>
   requests_total s k \<le> requests_total (snd (run ops s)) k \<and>
   validation_failures s l \<le> validation_failures (snd (run ops s)) l \<and>
   fst (metrics (snd (run ops s))) =
     Inr (requests_total (snd (run ops s)), request_duration (snd (run ops s)),
          validation_failures (snd (run ops s)), database_operations (snd (run ops s)))"
  by (simp only: run_success_total run_failures run_mono metrics_def gets_def fst_conv
      simp_thms)

theorem counters_after_run_witness:
  "requests_total
     (snd (run [PostSubmit valid_request, PostSubmit invalid_request, PostSubmit valid_request]
        fresh)) (''success'', ''/prior-auth/submit'') = 2 \<and>
   validation_failures
     (snd (run [PostSubmit valid_request, PostSubmit invalid_request, PostSubmit valid_request]
        fresh)) ''invalid_npi_format'' = 1"
  using counters_after_run [of "[PostSubmit valid_request, PostSubmit invalid_request,
    PostSubmit valid_request]" fresh]
  by (simp add: demo_run_outcomes is_created_def is_invalid_npi_def fresh_fields)

section \<open>Request identifiers\<close>

text \<open>
  C3 (as amended). A submission whose provider identifier is exactly ten digits \<open>0\<close> to
  \<open>9\<close>, made while the store stays reachable, returns a record. The identifier of every
  record that \<open>submit_prior_auth\<close> returns is \<open>PA-\<close> followed by the number of rows in
  the request table plus one, padded with zeros to five digits. The identifiers returned
  in a serialized run are, in order, those of the numbers from the count at the start plus
  one to the count at the end; and while the table has fewer than 100000 rows at the end
  of the run, each of them matches \<open>PA-\d{5}\<close> and each is greater, as a string, than all
  those returned before it.
\<close>

theorem identifiers_of_a_run:
  "(length (provider_npi r) = 10 \<and> list_all ascii_digit (provider_npi r) \<and> available s \<longrightarrow>
      (\<exists>row. fst (submit_prior_auth r s) = Inr row)) \<and>
   (fst (submit_prior_auth r s) = Inr row \<longrightarrow>
      request_id row = ''PA-'' @ format_05d (length (prior_auth_requests s) + 1)) \<and>
   created_ids (fst (run ops t)) =
     map (\<lambda>k. ''PA-'' @ format_05d k)
       [length (prior_auth_requests t) + 1 ..<
        length (prior_auth_requests (snd (run ops t))) + 1] \<and>
   (length (prior_auth_requests (snd (run ops t))) < 100000 \<longrightarrow>
      list_all matches_PA_5d (created_ids (fst (run ops t))) \<and>
      sorted_wrt str_lt (created_ids (fst (run ops t))))"
proof -
  have a: "\<exists>row. fst (submit_prior_auth r s) = Inr row"
    if "length (provider_npi r) = 10" "list_all ascii_digit (provider_npi r)" "available s"
    using submit_available_result [OF ten_digits [OF that(1,2)] that(1,3)] by blast
  have b: "request_id row = ''PA-'' @ format_05d (length (prior_auth_requests s) + 1)"
    if "fst (submit_prior_auth r s) = Inr row"
    using that by (rule submit_id)
  have c: "list_all matches_PA_5d (created_ids (fst (run ops t))) \<and>
      sorted_wrt str_lt (created_ids (fst (run ops t)))"
    if h: "length (prior_auth_requests (snd (run ops t))) < 100000"
  proof -
    have "length (prior_auth_requests (snd (run ops t))) + 1 \<le> 100000"
      using h by simp
    then show ?thesis
      unfolding run_ids by (intro conjI ids_match ids_sorted)
  qed
  show ?thesis
    using a b c run_ids [of ops t] by blast
qed

theorem identifiers_of_a_run_witness:
  "length (provider_npi valid_request) = 10 \<and>
   list_all ascii_digit (provider_npi valid_request) \<and>
   fst (submit_prior_auth valid_request fresh) =
     Inr \<lparr>member_id = ''M10001'', provider_npi = ''1234567890'',
       diagnosis_code = ''E11.9'', requested_service = ''MRI_BRAIN'', row_id = 1,
       request_id = ''PA-00001'', status = ''pending'', created_at = 0\<rparr> \<and>
   created_ids (fst (run [PostSubmit valid_request, PostSubmit invalid_request,
     PostSubmit valid_request] fresh)) = [''PA-00001'', ''PA-00002''] \<and>
   list_all matches_PA_5d [''PA-00001'', ''PA-00002''] \<and>
   sorted_wrt str_lt [''PA-00001'', ''PA-00002'']"
proof -
  have ids: "created_ids (fst (run [PostSubmit valid_request, PostSubmit invalid_request,
     PostSubmit valid_request] fresh)) = [''PA-00001'', ''PA-00002'']"
    by (simp add: demo_run_outcomes created_ids_def)
  note t = identifiers_of_a_run [of valid_request fresh
      "\<lparr>member_id = ''M10001'', provider_npi = ''1234567890'',
       diagnosis_code = ''E11.9'', requested_service = ''MRI_BRAIN'', row_id = 1,
       request_id = ''PA-00001'', status = ''pending'', created_at = 0\<rparr>"
      "[PostSubmit valid_request, PostSubmit invalid_request, PostSubmit valid_request]" fresh]
  have 1: "\<exists>row. fst (submit_prior_auth valid_request fresh) = Inr row"
    using t [THEN conjunct1] valid_request_npi valid_request_digits
    by (simp add: fresh_fields)
  have 2: "list_all matches_PA_5d [''PA-00001'', ''PA-00002''] \<and>
      sorted_wrt str_lt [''PA-00001'', ''PA-00002'']"
    using t [THEN conjunct2, THEN conjunct2, THEN conjunct2] demo_run_rows
    unfolding ids by simp
  show ?thesis
    using 1 2 ids demo_first_submit valid_request_npi valid_request_digits by simp
qed

text \<open>
  C3 as stated fails in two ways. When the store cannot be reached, a valid submission
  returns no record: the identifier query raises. And on a store that stays reachable,
  the 100000th valid submission of a run returns \<open>PA-100000\<close>, which has six digits, does
  not match \<open>PA-\d{5}\<close>, and is less, as a string, than \<open>PA-99999\<close> returned just
  before it.
\<close>

theorem identifier_after_99999:
  "length (provider_npi valid_request) = 10 \<and>
   list_all ascii_digit (provider_npi valid_request) \<and>
   fst (submit_prior_auth valid_request (fresh\<lparr>outages := [True]\<rparr>)) = Inl DatabaseError \<and>
   created_ids (fst (run (replicate 100000 (PostSubmit valid_request)) fresh)) ! 99998 =
     ''PA-99999'' \<and>
   created_ids (fst (run (replicate 100000 (PostSubmit valid_request)) fresh)) ! 99999 =
     ''PA-100000'' \<and>
   \<not> matches_PA_5d ''PA-100000'' \<and>
   str_lt ''PA-100000'' ''PA-99999''"
proof -
  have "available fresh" by (simp add: fresh_fields)
  then have "created_ids (fst (run (replicate 100000 (PostSubmit valid_request)) fresh)) =
      map (\<lambda>k. ''PA-'' @ format_05d k) [1 ..< 100001]"
    by (simp add: run_ids run_valid_count fresh_fields)
  moreover have "fst (submit_prior_auth valid_request (fresh\<lparr>outages := [True]\<rparr>)) =
      Inl DatabaseError"
    by (simp add: submit_prior_auth_def)
  ultimately show ?thesis
    using valid_request_npi valid_request_digits
    by (simp add: format_05d_values matches_PA_5d_def)
qed

text \<open>
  C8. In a submission that returns a record, the identifier is computed twice: by the
  count query at the start of the call, whose value \<open>log_receipt\<close> hands on, and by the
  count query under the span \<open>generate_request_id\<close>, after the check has passed. No row
  is inserted between the two, and both give the identifier of the returned record. That
  record is the row the call appends to the request table; its identifier is the value of
  the one \<open>request.id\<close> attribute the call sets on the root span, and every audit event
  the call writes carries it, first among them \<open>REQUEST_RECEIVED\<close> when that write
  reaches the store.
\<close>

theorem identifier_computed_twice:
  "fst (submit_prior_auth r s) = Inr row \<Longrightarrow>
   fst (get_next_request_id (start_span ''submit_prior_auth'' s)) = Inr (request_id row) \<and>
   fst (log_receipt r s) = Inr (request_id row) \<and>
   fst (validate_npi r (request_id row) (snd (log_receipt r s))) = Inr () \<and>
   prior_auth_requests (snd (validate_npi r (request_id row) (snd (log_receipt r s)))) =
     prior_auth_requests s \<and>
   fst (generate_request_id (snd (validate_npi r (request_id row) (snd (log_receipt r s))))) =
     Inr (request_id row) \<and>
   prior_auth_requests (snd (submit_prior_auth r s)) = prior_auth_requests s @ [row] \<and>
   map (snd \<circ> snd)
     (filter (\<lambda>a. fst a = ''submit_prior_auth'' \<and> fst (snd a) = ''request.id'')
        (drop (length (span_attributes s)) (span_attributes (snd (submit_prior_auth r s))))) =
     [Str (request_id row)] \<and>
   list_all (\<lambda>e. fst e = request_id row) (new_events s (snd (submit_prior_auth r s))) \<and>
   (store_up (used s) \<longrightarrow>
      take 1 (new_events s (snd (submit_prior_auth r s))) =
        [(request_id row, ''REQUEST_RECEIVED'')])"
proof -
  assume ok: "fst (submit_prior_auth r s) = Inr row"
  let ?i = "''PA-'' @ format_05d (length (prior_auth_requests s) + 1)"
  have i: "request_id row = ?i" using ok by (rule submit_id)
  have up1: "store_up s" using ok by (rule submit_store_up)
  have valid: "isdigit (provider_npi r)" "length (provider_npi r) = 10"
    using submit_valid [OF ok] by simp_all
  have up2: "store_up (start_span ''validate_npi'' (snd (log_receipt r s)))"
    using ok by (rule submit_second_up)
  have rows: "prior_auth_requests (start_span ''validate_npi'' (snd (log_receipt r s))) =
      prior_auth_requests s"
    using up1 by simp
  have a: "fst (get_next_request_id (start_span ''submit_prior_auth'' s)) = Inr ?i"
    using up1 by (simp add: get_next_request_id_result)
  have b: "fst (log_receipt r s) = Inr ?i"
    using up1 by (rule log_receipt_result)
  have c: "fst (validate_npi r ?i (snd (log_receipt r s))) = Inr ()"
    using valid by (simp add: validate_npi_result)
  have d: "prior_auth_requests (snd (validate_npi r ?i (snd (log_receipt r s)))) =
      prior_auth_requests s"
    using up1 by simp
  have e: "fst (generate_request_id (snd (validate_npi r ?i (snd (log_receipt r s))))) = Inr ?i"
    using generate_request_id_result [OF up2] rows valid by (simp add: validate_npi_passed)
  have f: "prior_auth_requests (snd (submit_prior_auth r s)) = prior_auth_requests s @ [row]"
    using submit_rows [of r s] ok by simp
  have g: "store_up (used s) \<longrightarrow>
      take 1 (new_events s (snd (submit_prior_auth r s))) = [(?i, ''REQUEST_RECEIVED'')]"
    using submit_first_event [OF ok] by simp
  show ?thesis
    unfolding i
    using a b c d e f g submit_root_attribute [OF up1, of r] submit_new_ids [of s r]
    by (intro conjI)
qed

theorem identifier_computed_twice_witness:
  "fst (submit_prior_auth valid_request fresh) =
     Inr \<lparr>member_id = ''M10001'', provider_npi = ''1234567890'',
       diagnosis_code = ''E11.9'', requested_service = ''MRI_BRAIN'', row_id = 1,
       request_id = ''PA-00001'', status = ''pending'', created_at = 0\<rparr> \<and>
   fst (log_receipt valid_request fresh) = Inr ''PA-00001'' \<and>
   fst (generate_request_id
     (snd (validate_npi valid_request ''PA-00001'' (snd (log_receipt valid_request fresh))))) =
     Inr ''PA-00001'' \<and>
   map request_id (prior_auth_requests (snd (submit_prior_auth valid_request fresh))) =
     [''PA-00001''] \<and>
   take 1 (new_events fresh (snd (submit_prior_auth valid_request fresh))) =
     [(''PA-00001'', ''REQUEST_RECEIVED'')]"
  using identifier_computed_twice [OF demo_first_submit] demo_first_submit
  by (simp add: fresh_fields used_def)

section \<open>The audit trail\<close>




end
